theory Spec2Isabelle
  imports Main
begin

section \<open>Data model\<close>

text \<open>
  The file verified is \<^verbatim>\<open>pkg/v1/remote/transport/transport.go\<close>: the function
  \<^verbatim>\<open>NewWithContext\<close> and the type \<^verbatim>\<open>Wrapper\<close> with its method \<^verbatim>\<open>RoundTrip\<close>.
  Everything else the function touches (\<^verbatim>\<open>ping\<close>, the decorators' own
  \<^verbatim>\<open>RoundTrip\<close> methods, \<^verbatim>\<open>refresh\<close>, \<^verbatim>\<open>NewUserAgent\<close>, \<^verbatim>\<open>Canonical\<close>) is declared in
  other files of the package. Those parts are either parameters (the record \<open>env\<close>)
  or small definitions marked as modelled from the specification.
\<close>

text \<open>
  Modelled from the spec: \<^verbatim>\<open>name.Registry\<close> is declared outside this file. It is an opaque
  identity; the two fields are the results of the two methods the code calls on it,
  \<^verbatim>\<open>reg.RegistryStr()\<close> and \<^verbatim>\<open>reg.String()\<close> (the canonical string form).
\<close>

record Registry =
  RegistryStr :: string
  reg_String :: string

text \<open>\<^verbatim>\<open>http.Request\<close> and \<^verbatim>\<open>http.Response\<close>, reduced to the parts a decorator reads or writes.\<close>

record request =
  url_scheme :: string
  url_host :: string
  url_path :: string
  header :: "string \<rightharpoonup> string"
  body :: string

record response =
  status :: nat
  resp_body :: string

text \<open>
  Modelled from the spec: the type \<^verbatim>\<open>challenge\<close>, its constants \<^verbatim>\<open>anonymous\<close>, \<^verbatim>\<open>basic\<close>,
  \<^verbatim>\<open>bearer\<close> and its method \<^verbatim>\<open>Canonical()\<close> are declared outside this file. A raw
  challenge is the string the server sent; its canonical form is one of the three
  constants the \<^verbatim>\<open>switch\<close> names (pairwise distinct, as Go requires of the cases of one
  \<^verbatim>\<open>switch\<close>), or any other value.
\<close>

type_synonym challenge = string

datatype canonical = anonymous | basic | bearer | other

text \<open>
  Errors as values. The two errors this file creates with \<^verbatim>\<open>fmt.Errorf\<close> are kept apart
  by constructor and carry the value their message prints; \<open>Foreign\<close> is an error value
  produced elsewhere (by \<^verbatim>\<open>ping\<close>, by the token exchange, by a round tripper).
\<close>

datatype error =
    MalformedChallenge "string \<rightharpoonup> string"
      \<comment> \<open>\<^verbatim>\<open>"malformed www-authenticate, missing realm: %v", pr.parameters\<close>\<close>
  | UnrecognizedChallenge challenge
      \<comment> \<open>\<^verbatim>\<open>"unrecognized challenge: %s", pr.challenge\<close>\<close>
  | Foreign string

text \<open>\<^verbatim>\<open>pingResp\<close>, with the three fields the function reads: \<^verbatim>\<open>challenge\<close>, \<^verbatim>\<open>parameters\<close>, \<^verbatim>\<open>scheme\<close>.\<close>

datatype pingResp = PingResp challenge "string \<rightharpoonup> string" string

text \<open>
  An \<^verbatim>\<open>http.RoundTripper\<close> is an interface value; the function inspects its dynamic type
  (\<^verbatim>\<open>t.(*userAgentTransport)\<close>), so the implementations are the constructors of one
  datatype. \<open>External k\<close> is any round tripper implemented outside the package,
  named by \<open>k\<close>. The fields of the others are in the order of the struct literals of
  the source:
  \<^item> \<open>userAgentTransport inner ua\<close>
  \<^item> \<open>schemeTransport scheme registry inner\<close>
  \<^item> \<open>basicTransport inner auth target\<close>
  \<^item> \<open>bearerTransport inner basic token realm registry service scopes scheme\<close>, where
    \<open>token\<close> is the cached token, which the struct literal leaves at its zero value
    (\<open>None\<close>: unset)
  \<^item> \<open>Wrapper inner\<close>
\<close>

datatype 'auth transport =
    External nat
  | userAgentTransport "'auth transport" string
  | schemeTransport string Registry "'auth transport"
  | basicTransport "'auth transport" 'auth string
  | bearerTransport "'auth transport" 'auth "string option" string Registry string "string list" string
  | Wrapper "'auth transport"

text \<open>
  The calls a function makes itself, in order: the probe, a token refresh on a bearer
  transport (in the state it has when the call is made), a request handed to the
  inner round tripper.
\<close>

datatype 'auth call =
    Ping Registry "'auth transport"
  | Refresh "'auth transport"
  | Delegate request

text \<open>A Go result pair \<^verbatim>\<open>(value, error)\<close>: either component may be \<^verbatim>\<open>nil\<close>.\<close>

type_synonym result = "response option \<times> error option"

text \<open>
  The parts of the package and of the outside world that this file only calls. Every
  effectful one takes the state of the outside world (network, registry, token server,
  credential store) and returns the new one.
  \<^item> \<open>ping\<close>: the probe \<^verbatim>\<open>ping(ctx, reg, t)\<close>, which returns a probe result or an error;
  \<^item> \<open>Canonical\<close>: the canonical kind of a raw challenge;
  \<^item> \<open>userAgent\<close>: the user-agent string \<^verbatim>\<open>NewUserAgent\<close> computes from its argument;
  \<^item> \<open>exchange\<close>: one credential exchange for a token, from the authenticator, the realm,
    the service and the scopes;
  \<^item> \<open>authorization\<close>: the authenticator's current Basic credentials;
  \<^item> \<open>external\<close>: the behaviour of the round trippers implemented outside the package.
  The context argument \<^verbatim>\<open>ctx\<close> only travels to \<^verbatim>\<open>ping\<close> and \<^verbatim>\<open>refresh\<close>; it is part of the
  outside world here.
\<close>

record ('auth, 'w) env =
  ping :: "Registry \<Rightarrow> 'auth transport \<Rightarrow> 'w \<Rightarrow> (error + pingResp) \<times> 'w"
  Canonical :: "challenge \<Rightarrow> canonical"
  userAgent :: "string \<Rightarrow> string"
  exchange :: "'auth \<Rightarrow> string \<Rightarrow> string \<Rightarrow> string list \<Rightarrow> 'w \<Rightarrow> (error + string) \<times> 'w"
  authorization :: "'auth \<Rightarrow> 'w \<Rightarrow> (error + string) \<times> 'w"
  external :: "nat \<Rightarrow> request \<Rightarrow> 'w \<Rightarrow> result \<times> 'w"

section \<open>The decorators declared in other files\<close>

text \<open>
  Modelled from the spec: \<^verbatim>\<open>NewUserAgent\<close> and the type \<^verbatim>\<open>userAgentTransport\<close> are declared
  outside this file. \<^verbatim>\<open>NewUserAgent\<close> puts a user-agent decorator around the transport it
  is given; the decorator's user-agent string is computed from the string given.
\<close>

definition NewUserAgent :: "('auth, 'w) env \<Rightarrow> 'auth transport \<Rightarrow> string \<Rightarrow> 'auth transport" where
  "NewUserAgent env inner ua = userAgentTransport inner (userAgent env ua)"

text \<open>
  Modelled from the spec: \<^verbatim>\<open>bearerTransport.refresh\<close> is declared outside this file. It
  performs one credential exchange with the realm, the service and the scopes of the
  transport; on success the returned token replaces the cached one, on failure the
  error is returned and the cached token is left as it was. The method writes one field
  of the transport, the cached token: the model returns the error and the value of
  that field after the call. The method exists on bearer transports only; the last
  equation is never reached from this file.
\<close>

fun refresh :: "('auth, 'w) env \<Rightarrow> 'auth transport \<Rightarrow> 'w \<Rightarrow> error option \<times> string option \<times> 'w" where
  "refresh env (bearerTransport inner basic' token realm registry service scopes scheme) w =
     (case exchange env basic' realm service scopes w of
        (Inl err, w') \<Rightarrow> (Some err, token, w')
      | (Inr tok, w') \<Rightarrow> (None, Some tok, w'))"
| "refresh env t w = (None, None, w)"

section \<open>NewWithContext\<close>

text \<open>
  The Go function returns the pair \<^verbatim>\<open>(http.RoundTripper, error)\<close>; the model returns that
  pair, the calls made (in order) and the outside world afterwards. A pointer to a
  freshly built struct is the struct's value; \<^verbatim>\<open>bt.refresh\<close> updates the cached token of
  \<^verbatim>\<open>bt\<close> in place, so the transport returned is \<^verbatim>\<open>bt\<close> with the token \<open>refresh\<close> hands back.
\<close>

definition NewWithContext ::
  "('auth, 'w) env \<Rightarrow> Registry \<Rightarrow> 'auth \<Rightarrow> 'auth transport \<Rightarrow> string list \<Rightarrow> 'w
     \<Rightarrow> ('auth transport option \<times> error option) \<times> 'auth call list \<times> 'w" where
  "NewWithContext env reg auth t scopes w =
     (case ping env reg t w of
        (Inl err, w1) \<Rightarrow> ((None, Some err), [Ping reg t], w1)
      | (Inr (PingResp chal parameters scheme), w1) \<Rightarrow>
          (let t1 = (case t of userAgentTransport _ _ \<Rightarrow> t | _ \<Rightarrow> NewUserAgent env t '''');
               t2 = schemeTransport scheme reg t1
           in (case Canonical env chal of
                 anonymous \<Rightarrow> ((Some (Wrapper t2), None), [Ping reg t], w1)
               | basic \<Rightarrow>
                   ((Some (Wrapper (basicTransport t2 auth (RegistryStr reg))), None),
                    [Ping reg t], w1)
               | bearer \<Rightarrow>
                   (case parameters ''realm'' of
                      None \<Rightarrow> ((None, Some (MalformedChallenge parameters)), [Ping reg t], w1)
                    | Some realm \<Rightarrow>
                        (let service = (case parameters ''service'' of
                                          None \<Rightarrow> reg_String reg
                                        | Some s \<Rightarrow> s);
                             bt = bearerTransport t2 auth None realm reg service scopes scheme
                         in (case refresh env bt w1 of
                               (Some err, token, w2) \<Rightarrow>
                                 ((None, Some err), [Ping reg t, Refresh bt], w2)
                             | (None, token, w2) \<Rightarrow>
                                 ((Some (Wrapper (bearerTransport t2 auth token realm reg
                                                    service scopes scheme)), None),
                                  [Ping reg t, Refresh bt], w2))))
               | other \<Rightarrow> ((None, Some (UnrecognizedChallenge chal)), [Ping reg t], w1))))"

section \<open>RoundTrip\<close>

text \<open>\<^verbatim>\<open>in.Header.Set(k, v)\<close> on a request.\<close>

definition set_header :: "string \<Rightarrow> string \<Rightarrow> request \<Rightarrow> request" where
  "set_header k v req = req\<lparr>header := (header req)(k \<mapsto> v)\<rparr>"

text \<open>
  Modelled from the spec: the inner response is a 401. A response came back, with no
  error (a failure of the inner transport is passed through unchanged), and its status
  is 401.
\<close>

definition unauthorized :: "result \<Rightarrow> bool" where
  "unauthorized r = (case r of (Some resp, None) \<Rightarrow> status resp = 401 | _ \<Rightarrow> False)"

text \<open>
  Modelled from the spec: the value of the \<^verbatim>\<open>Authorization\<close> header for a cached token,
  \<^verbatim>\<open>Bearer <token>\<close> (with the empty string for an unset token, Go's zero value).
\<close>

definition bearer_header :: "string option \<Rightarrow> string" where
  "bearer_header token = ''Bearer '' @ (case token of None \<Rightarrow> '''' | Some tok \<Rightarrow> tok)"

text \<open>
  \<^verbatim>\<open>RoundTrip\<close> of every implementation, as one function on the chain of decorators. It
  returns the Go result pair, the calls this round tripper made itself (not those of the
  round trippers below it), the round tripper afterwards (a bearer transport replaces
  its cached token in place) and the outside world afterwards.
\<close>

text \<open>
  Modelled from the spec: the \<^verbatim>\<open>RoundTrip\<close> methods of \<^verbatim>\<open>userAgentTransport\<close>,
  \<^verbatim>\<open>schemeTransport\<close>, \<^verbatim>\<open>basicTransport\<close> and \<^verbatim>\<open>bearerTransport\<close> are declared outside
  this file. Only the last equation, of \<open>Wrapper\<close>, is the method of this file:
  \<^verbatim>\<open>return w.inner.RoundTrip(in)\<close>.
  \<^item> User agent: tags the request with its user-agent string and delegates.
  \<^item> Scheme selector: on every request, rewrites the request's scheme to the one
    discovered by the probe, preserving path, query, headers and body; delegates to
    the inner transport; returns its response or failure verbatim.
  \<^item> Basic: on every request, queries the authenticator for the current credentials,
    attaches a Basic authentication header, delegates; if the authenticator cannot
    produce credentials, that error is returned and nothing is sent.
  \<^item> Bearer: attaches the cached token as a Bearer authentication header and delegates.
    If the inner response is not a 401, it is returned unchanged. If it is a 401, the
    credential exchange is repeated (same realm, service, scopes), the cached token is
    replaced on success, and the original request is retried exactly once with the new
    token; whatever the retry yields is returned. If the exchange itself fails, the
    exchange error is returned instead of the request's outcome.
\<close>

function RoundTrip ::
  "('auth, 'w) env \<Rightarrow> 'auth transport \<Rightarrow> request \<Rightarrow> 'w
     \<Rightarrow> result \<times> 'auth call list \<times> 'auth transport \<times> 'w" where
  "RoundTrip env (External k) req w =
     (case external env k req w of (r, w') \<Rightarrow> (r, [], External k, w'))"
| "RoundTrip env (userAgentTransport inner ua) req w =
     (let req' = set_header ''User-Agent'' ua req
      in case RoundTrip env inner req' w of
           (r, _, inner', w') \<Rightarrow> (r, [Delegate req'], userAgentTransport inner' ua, w'))"
| "RoundTrip env (schemeTransport scheme registry inner) req w =
     (let req' = req\<lparr>url_scheme := scheme\<rparr>
      in case RoundTrip env inner req' w of
           (r, _, inner', w') \<Rightarrow>
             (r, [Delegate req'], schemeTransport scheme registry inner', w'))"
| "RoundTrip env (basicTransport inner auth target) req w =
     (case authorization env auth w of
        (Inl err, w0) \<Rightarrow> ((None, Some err), [], basicTransport inner auth target, w0)
      | (Inr cred, w0) \<Rightarrow>
          (let req' = set_header ''Authorization'' (''Basic '' @ cred) req
           in case RoundTrip env inner req' w0 of
                (r, _, inner', w') \<Rightarrow>
                  (r, [Delegate req'], basicTransport inner' auth target, w')))"
| "RoundTrip env (bearerTransport inner basic' token realm registry service scopes scheme) req w =
     (let req1 = set_header ''Authorization'' (bearer_header token) req
      in case RoundTrip env inner req1 w of
           (r1, _, inner1, w1) \<Rightarrow>
             (let bt1 = bearerTransport inner1 basic' token realm registry service scopes scheme
              in if unauthorized r1 then
                   (case refresh env bt1 w1 of
                      (Some err, token2, w2) \<Rightarrow>
                        ((None, Some err), [Delegate req1, Refresh bt1],
                         bearerTransport inner1 basic' token2 realm registry service scopes scheme,
                         w2)
                    | (None, token2, w2) \<Rightarrow>
                        (let req2 = set_header ''Authorization'' (bearer_header token2) req
                         in case RoundTrip env inner1 req2 w2 of
                              (r2, _, inner2, w3) \<Rightarrow>
                                (r2, [Delegate req1, Refresh bt1, Delegate req2],
                                 bearerTransport inner2 basic' token2 realm registry service
                                   scopes scheme,
                                 w3)))
                 else (r1, [Delegate req1], bt1, w1)))"
| "RoundTrip env (Wrapper inner) req w =
     (case RoundTrip env inner req w of
        (r, _, inner', w') \<Rightarrow> (r, [Delegate req], Wrapper inner', w'))"
  by pat_completeness auto

text \<open>
  The retry of a bearer transport goes to the inner round tripper as the first attempt
  left it. A round trip changes cached tokens only, never the shape of the chain, so
  the recursion is on a chain of the same size.
\<close>

termination RoundTrip
proof -
  have same_size: "size t' = size t"
    if "RoundTrip_dom (env, t, req, w)" and "RoundTrip env t req w = (r, cs, t', w')"
    for env :: "('auth, 'w) env" and t t' :: "'auth transport" and req w r cs w'
    using that
    by (induction env t req w arbitrary: r cs t' w' rule: RoundTrip.pinduct)
       (auto simp: RoundTrip.psimps Let_def split: prod.splits sum.splits option.splits if_splits)
  show ?thesis
    by (relation "measure (\<lambda>(env, t, req, w). size t)") (auto dest: same_size [OF _ sym])
qed

text \<open>What the caller of a round trip observes: the result pair and the outside world afterwards.\<close>

definition outcome :: "result \<times> 'auth call list \<times> 'auth transport \<times> 'w \<Rightarrow> result \<times> 'w" where
  "outcome x = (fst x, snd (snd (snd x)))"

section \<open>Concrete inputs\<close>

text \<open>
  A registry, a request, and an outside world that counts its calls. The probe answers
  over \<open>https\<close> with the challenge and the parameters given; the token exchange answers
  with the outcome given; the one outside round tripper answers 200 to a request that
  carries \<open>Bearer abc\<close> and 401 to every other.
\<close>

definition example_reg :: Registry where
  "example_reg = \<lparr>RegistryStr = ''registry.example'', reg_String = ''registry.example''\<rparr>"

definition example_req :: request where
  "example_req =
     \<lparr>url_scheme = ''http'', url_host = ''registry.example'', url_path = ''/v2/'',
      header = Map.empty, body = ''''\<rparr>"

definition example_env :: "challenge \<Rightarrow> (string \<rightharpoonup> string) \<Rightarrow> error + string \<Rightarrow> (unit, nat) env" where
  "example_env chal params ex =
     \<lparr>ping = (\<lambda>reg t w. (Inr (PingResp chal params ''https''), Suc w)),
      Canonical = (\<lambda>c. if c = ''bearer'' then bearer else if c = ''basic'' then basic
                        else if c = '''' then anonymous else other),
      userAgent = (\<lambda>ua. ua @ ''go-containerregistry''),
      exchange = (\<lambda>a realm service scopes w. (ex, Suc w)),
      authorization = (\<lambda>a w. (Inr ''dTpw'', w)),
      external = (\<lambda>k req w.
        ((Some \<lparr>status = (if header req ''Authorization'' = Some ''Bearer abc'' then 200 else 401),
                 resp_body = ''''\<rparr>, None), Suc w))\<rparr>"

definition example_params :: "string \<rightharpoonup> string" where
  "example_params = [''realm'' \<mapsto> ''https://auth.example/token'', ''service'' \<mapsto> ''registry.example'']"

definition example_bearer :: "string option \<Rightarrow> unit transport" where
  "example_bearer token =
     bearerTransport (External 0) () token ''https://auth.example/token'' example_reg
       ''registry.example'' [''repository:foo:pull''] ''https''"

text \<open>
  A registry whose canonical string differs from its registry string, a bearer challenge
  without a \<open>service\<close> parameter and one with a \<open>service\<close> that is neither string of the
  registry, and an outside world whose token exchange answers with the service it was
  asked for as the token.
\<close>

definition example_reg_port :: Registry where
  "example_reg_port = \<lparr>RegistryStr = ''registry.example'', reg_String = ''registry.example:5000''\<rparr>"

definition example_params_realm :: "string \<rightharpoonup> string" where
  "example_params_realm = [''realm'' \<mapsto> ''https://auth.example/token'']"

definition example_params_service :: "string \<rightharpoonup> string" where
  "example_params_service =
     [''realm'' \<mapsto> ''https://auth.example/token'', ''service'' \<mapsto> ''token-service'']"

definition example_echo_env :: "(string \<rightharpoonup> string) \<Rightarrow> (unit, nat) env" where
  "example_echo_env params =
     (example_env ''bearer'' params (Inr ''''))
       \<lparr>exchange := (\<lambda>a realm service scopes w. (Inr service, Suc w))\<rparr>"

section \<open>Auxiliary facts\<close>

lemma refresh_success_token:
  "refresh env (bearerTransport inner basic' token realm registry service scopes scheme) w = (None, token2, w2)
     \<Longrightarrow> \<exists>tok. token2 = Some tok"
  by (auto split: prod.splits sum.splits)

lemma bearer_first_call:
  "\<exists>rest. fst (snd (RoundTrip env (bearerTransport inner basic' token realm registry service scopes scheme) req x))
     = Delegate (set_header ''Authorization'' (bearer_header token) req) # rest"
  by (auto simp: Let_def split: prod.splits option.splits)

lemma bearer_token_stays_set:
  "\<exists>i tok'. fst (snd (snd (RoundTrip env
       (bearerTransport inner a (Some tok) realm reg service scopes scheme) req x))) =
     bearerTransport i a (Some tok') realm reg service scopes scheme"
  by (auto simp: Let_def split: prod.splits option.splits sum.splits)

lemma NewWithContext_success_shape:
  assumes "NewWithContext env reg auth t scopes w = ((Some tr, e), cs, w')"
  shows "\<exists>chal parameters scheme w1.
           ping env reg t w = (Inr (PingResp chal parameters scheme), w1) \<and>
           (let t1 = (case t of userAgentTransport _ _ \<Rightarrow> t | _ \<Rightarrow> NewUserAgent env t '''');
                st = schemeTransport scheme reg t1
            in tr = Wrapper st \<or>
               tr = Wrapper (basicTransport st auth (RegistryStr reg)) \<or>
               (\<exists>token realm service.
                  tr = Wrapper (bearerTransport st auth token realm reg service scopes scheme)))"
  using assms
  by (auto simp: NewWithContext_def Let_def simp del: refresh.simps
           split: prod.splits sum.splits pingResp.splits canonical.splits option.splits)

lemma scheme_ignores_url_scheme:
  "RoundTrip env (schemeTransport scheme reg i) (req\<lparr>url_scheme := s\<rparr>) x =
   RoundTrip env (schemeTransport scheme reg i) req x"
  by simp

lemma set_header_url_scheme:
  "set_header k v (req\<lparr>url_scheme := s\<rparr>) = (set_header k v req)\<lparr>url_scheme := s\<rparr>"
  by (simp add: set_header_def)

lemma Wrapper_outcome:
  "outcome (RoundTrip env (Wrapper i) req x) = outcome (RoundTrip env i req x)"
  by (simp add: outcome_def split: prod.splits)

lemma basic_ignores_url_scheme:
  "outcome (RoundTrip env (basicTransport (schemeTransport scheme reg i) a target) (req\<lparr>url_scheme := s\<rparr>) x) =
   outcome (RoundTrip env (basicTransport (schemeTransport scheme reg i) a target) req x)"
  by (simp add: outcome_def Let_def set_header_url_scheme scheme_ignores_url_scheme
           del: RoundTrip.simps(3) split: prod.splits sum.splits)

lemma bearer_ignores_url_scheme:
  "outcome (RoundTrip env (bearerTransport (schemeTransport scheme reg i) a token realm reg' service scopes scheme')
              (req\<lparr>url_scheme := s\<rparr>) x) =
   outcome (RoundTrip env (bearerTransport (schemeTransport scheme reg i) a token realm reg' service scopes scheme')
              req x)"
  by (simp add: outcome_def Let_def set_header_url_scheme
           del: refresh.simps split: prod.splits option.splits)

section \<open>Negotiation: the failure paths\<close>

text \<open>
  Claim C1. Whenever the probe returns a challenge whose canonical kind is bearer and
  whose parameter map has no \<open>realm\<close> key, \<open>NewWithContext\<close> returns no transport
  and the error for a malformed challenge (which prints the parameters). Only the probe
  has been called: no token exchange is attempted.
\<close>

theorem NewWithContext_missing_realm:
  assumes "ping env reg t w = (Inr (PingResp chal parameters scheme), w1)"
    and "Canonical env chal = bearer"
    and "parameters ''realm'' = None"
  shows "NewWithContext env reg auth t scopes w =
           ((None, Some (MalformedChallenge parameters)), [Ping reg t], w1)"
  using assms by (simp add: NewWithContext_def)

theorem NewWithContext_missing_realm_witness:
  "ping (example_env ''bearer'' [''service'' \<mapsto> ''registry.example''] (Inr ''abc''))
        example_reg (External 0) 0
     = (Inr (PingResp ''bearer'' [''service'' \<mapsto> ''registry.example''] ''https''), 1)
   \<and> Canonical (example_env ''bearer'' [''service'' \<mapsto> ''registry.example''] (Inr ''abc''))
        ''bearer'' = bearer
   \<and> [''service'' \<mapsto> ''registry.example''] ''realm'' = None
   \<and> NewWithContext (example_env ''bearer'' [''service'' \<mapsto> ''registry.example''] (Inr ''abc''))
        example_reg () (External 0) [''repository:foo:pull''] 0
     = ((None, Some (MalformedChallenge [''service'' \<mapsto> ''registry.example''])),
        [Ping example_reg (External 0)], 1)"
proof -
  let ?ps = "[''service'' \<mapsto> ''registry.example'']"
  let ?env = "example_env ''bearer'' ?ps (Inr ''abc'')"
  have p: "ping ?env example_reg (External 0) 0 = (Inr (PingResp ''bearer'' ?ps ''https''), 1)"
    by (simp add: example_env_def)
  have c: "Canonical ?env ''bearer'' = bearer"
    by (simp add: example_env_def)
  have r: "?ps ''realm'' = None"
    by simp
  show ?thesis
    using p c r NewWithContext_missing_realm [OF p c r, of "()" "[''repository:foo:pull'']"]
    by blast
qed

text \<open>
  Claim C6. Whenever the probe returns a challenge whose canonical kind is none of
  anonymous, basic and bearer, \<open>NewWithContext\<close> returns no transport and the error for
  an unrecognized challenge (which prints the challenge as the probe returned it).
\<close>

theorem NewWithContext_unrecognized:
  assumes "ping env reg t w = (Inr (PingResp chal parameters scheme), w1)"
    and "Canonical env chal = other"
  shows "NewWithContext env reg auth t scopes w =
           ((None, Some (UnrecognizedChallenge chal)), [Ping reg t], w1)"
  using assms by (simp add: NewWithContext_def)

theorem NewWithContext_unrecognized_witness:
  "ping (example_env ''Negotiate'' Map.empty (Inr ''abc'')) example_reg (External 0) 0
     = (Inr (PingResp ''Negotiate'' Map.empty ''https''), 1)
   \<and> Canonical (example_env ''Negotiate'' Map.empty (Inr ''abc'')) ''Negotiate'' = other
   \<and> NewWithContext (example_env ''Negotiate'' Map.empty (Inr ''abc''))
        example_reg () (External 0) [] 0
     = ((None, Some (UnrecognizedChallenge ''Negotiate'')), [Ping example_reg (External 0)], 1)"
proof -
  let ?env = "example_env ''Negotiate'' Map.empty (Inr ''abc'')"
  have p: "ping ?env example_reg (External 0) 0
             = (Inr (PingResp ''Negotiate'' Map.empty ''https''), 1)"
    by (simp add: example_env_def)
  have c: "Canonical ?env ''Negotiate'' = other"
    by (simp add: example_env_def)
  show ?thesis
    using p c NewWithContext_unrecognized [OF p c, of "()" "[]"]
    by blast
qed

text \<open>
  Claim C10. For every registry, authenticator, transport, scope list, environment and
  outside world, the pair \<open>NewWithContext\<close> returns holds exactly one of a transport and
  an error: a transport and no error, or an error and no transport.
\<close>

theorem NewWithContext_transport_xor_error:
  "(\<exists>tr. fst (NewWithContext env reg auth t scopes w) = (Some tr, None)) \<or>
   (\<exists>err. fst (NewWithContext env reg auth t scopes w) = (None, Some err))"
  by (auto simp: NewWithContext_def Let_def
           split: prod.splits sum.splits pingResp.splits canonical.splits option.splits)

section \<open>Negotiation: the bearer path\<close>

text \<open>
  Claim C2. Whenever the probe returns a challenge whose canonical kind is bearer and
  whose parameters hold a \<open>realm\<close>, \<open>NewWithContext\<close> builds the bearer transport with
  its token unset and calls \<open>refresh\<close> on it exactly once: its calls are the probe and
  that one refresh, in this order. If the refresh fails, its error is returned with no
  transport. If it succeeds, the result is a \<open>Wrapper\<close> around the bearer transport
  holding the token the refresh produced, and no error. That token is set; the wrapper
  hands every request to the bearer transport; the first thing the bearer transport does
  with a request is to send it with that token attached; and after any round trip the
  bearer transport still holds a token, so the next request is served the same way.
\<close>

theorem NewWithContext_seed_exchange:
  assumes "ping env reg t w = (Inr (PingResp chal parameters scheme), w1)"
    and "Canonical env chal = bearer"
    and "parameters ''realm'' = Some realm"
  shows "let t1 = (case t of userAgentTransport _ _ \<Rightarrow> t | _ \<Rightarrow> NewUserAgent env t '''');
             service = (case parameters ''service'' of None \<Rightarrow> reg_String reg | Some s \<Rightarrow> s);
             st = schemeTransport scheme reg t1;
             bt = bearerTransport st auth None realm reg service scopes scheme
         in case refresh env bt w1 of
              (Some err, token, w2) \<Rightarrow>
                NewWithContext env reg auth t scopes w =
                  ((None, Some err), [Ping reg t, Refresh bt], w2)
            | (None, token, w2) \<Rightarrow>
                (let bt' = bearerTransport st auth token realm reg service scopes scheme
                 in NewWithContext env reg auth t scopes w =
                      ((Some (Wrapper bt'), None), [Ping reg t, Refresh bt], w2) \<and>
                    (\<exists>tok. token = Some tok \<and>
                       (\<forall>req x.
                          fst (snd (RoundTrip env (Wrapper bt') req x)) = [Delegate req] \<and>
                          (\<exists>rest. fst (snd (RoundTrip env bt' req x)) =
                             Delegate (set_header ''Authorization'' (''Bearer '' @ tok) req) # rest) \<and>
                          (\<exists>i tok'. fst (snd (snd (RoundTrip env bt' req x))) =
                             bearerTransport i auth (Some tok') realm reg service scopes scheme))))"
proof -
  define t1 where "t1 = (case t of userAgentTransport _ _ \<Rightarrow> t | _ \<Rightarrow> NewUserAgent env t '''')"
  define service where
    "service = (case parameters ''service'' of None \<Rightarrow> reg_String reg | Some s \<Rightarrow> s)"
  define st where "st = schemeTransport scheme reg t1"
  define bt where "bt = bearerTransport st auth None realm reg service scopes scheme"
  obtain e token w2 where r: "refresh env bt w1 = (e, token, w2)"
    by (cases "refresh env bt w1") auto
  have new: "NewWithContext env reg auth t scopes w =
      (case e of
         Some err \<Rightarrow> ((None, Some err), [Ping reg t, Refresh bt], w2)
       | None \<Rightarrow> ((Some (Wrapper (bearerTransport st auth token realm reg service scopes scheme)),
                   None),
                  [Ping reg t, Refresh bt], w2))"
    using assms r
    by (simp add: NewWithContext_def Let_def t1_def service_def st_def bt_def
             del: refresh.simps split: option.splits)
  have tok: "e = None \<Longrightarrow> \<exists>tok. token = Some tok"
    using r refresh_success_token [of env st auth None realm reg service scopes scheme w1 token w2]
    by (simp add: bt_def)
  have first: "\<exists>rest. fst (snd (RoundTrip env
                 (bearerTransport st auth (Some tok) realm reg service scopes scheme) req x)) =
               Delegate (set_header ''Authorization'' (''Bearer '' @ tok) req) # rest" for tok req x
    using bearer_first_call [of env st auth "Some tok" realm reg service scopes scheme req x]
    by (simp add: bearer_header_def del: RoundTrip.simps)
  have wr: "fst (snd (RoundTrip env (Wrapper i) req x)) = [Delegate req]" for i req x
    by (simp split: prod.splits)
  note stays = bearer_token_stays_set [of env st auth _ realm reg service scopes scheme]
  show ?thesis
  proof (cases e)
    case None
    with tok obtain tk where "token = Some tk" by blast
    with None new r first wr stays show ?thesis
      unfolding Let_def t1_def [symmetric] service_def [symmetric] st_def [symmetric]
        bt_def [symmetric]
      by (simp del: refresh.simps RoundTrip.simps)
  next
    case (Some err)
    with new r show ?thesis
      unfolding Let_def t1_def [symmetric] service_def [symmetric] st_def [symmetric]
        bt_def [symmetric]
      by (simp del: refresh.simps RoundTrip.simps)
  qed
qed

theorem NewWithContext_seed_exchange_witness:
  "NewWithContext (example_env ''bearer'' example_params (Inr ''abc''))
       example_reg () (External 0) [''repository:foo:pull''] 0
     = ((Some (Wrapper (bearerTransport
                  (schemeTransport ''https'' example_reg
                     (userAgentTransport (External 0) ''go-containerregistry''))
                  () (Some ''abc'') ''https://auth.example/token'' example_reg ''registry.example''
                  [''repository:foo:pull''] ''https'')), None),
        [Ping example_reg (External 0),
         Refresh (bearerTransport
                  (schemeTransport ''https'' example_reg
                     (userAgentTransport (External 0) ''go-containerregistry''))
                  () None ''https://auth.example/token'' example_reg ''registry.example''
                  [''repository:foo:pull''] ''https'')],
        2)
   \<and> NewWithContext (example_env ''bearer'' example_params (Inl (Foreign ''denied'')))
       example_reg () (External 0) [''repository:foo:pull''] 0
     = ((None, Some (Foreign ''denied'')),
        [Ping example_reg (External 0),
         Refresh (bearerTransport
                  (schemeTransport ''https'' example_reg
                     (userAgentTransport (External 0) ''go-containerregistry''))
                  () None ''https://auth.example/token'' example_reg ''registry.example''
                  [''repository:foo:pull''] ''https'')],
        2)"
proof -
  let ?ok = "example_env ''bearer'' example_params (Inr ''abc'')"
  let ?ko = "example_env ''bearer'' example_params (Inl (Foreign ''denied''))"
  have p: "ping (example_env ''bearer'' example_params ex) example_reg (External 0) 0
             = (Inr (PingResp ''bearer'' example_params ''https''), 1)" for ex
    by (simp add: example_env_def)
  have c: "Canonical (example_env ''bearer'' example_params ex) ''bearer'' = bearer" for ex
    by (simp add: example_env_def)
  have r: "example_params ''realm'' = Some ''https://auth.example/token''"
    by (simp add: example_params_def)
  have s: "example_params ''service'' = Some ''registry.example''"
    by (simp add: example_params_def)
  have u: "userAgent (example_env ''bearer'' example_params ex) '''' = ''go-containerregistry''" for ex
    by (simp add: example_env_def)
  have x: "exchange (example_env ''bearer'' example_params ex) a rl sv sc w = (ex, Suc w)" for ex a rl sv sc w
    by (simp add: example_env_def)
  show ?thesis
    using NewWithContext_seed_exchange [OF p c r, of "Inr ''abc''" "()" "[''repository:foo:pull'']"]
      NewWithContext_seed_exchange [OF p c r, of "Inl (Foreign ''denied'')" "()" "[''repository:foo:pull'']"]
    by (simp add: Let_def NewUserAgent_def u s x del: RoundTrip.simps)
qed

text \<open>
  Claim C7. Whenever the probe returns a bearer challenge with a \<open>realm\<close>,
  \<open>NewWithContext\<close> is the negotiation with one bearer transport: it builds the bearer
  transport around the scheme selector with the realm, the registry, the scopes, the probed
  scheme and a service, calls \<open>refresh\<close> on it once, and returns the refresh error, or
  the \<open>Wrapper\<close> around that transport with the refreshed token. When the parameters have
  no \<open>service\<close> key, that service is the registry's canonical string \<^verbatim>\<open>reg.String()\<close>;
  when they have one, it is the value of that key.
\<close>

theorem NewWithContext_bearer_service:
  assumes "ping env reg t w = (Inr (PingResp chal parameters scheme), w1)"
    and "Canonical env chal = bearer"
    and "parameters ''realm'' = Some realm"
  shows "let t1 = (case t of userAgentTransport _ _ \<Rightarrow> t | _ \<Rightarrow> NewUserAgent env t '''');
             st = schemeTransport scheme reg t1;
             negotiated = (\<lambda>service.
               let bt = bearerTransport st auth None realm reg service scopes scheme
               in case refresh env bt w1 of
                    (Some err, token, w2) \<Rightarrow> ((None, Some err), [Ping reg t, Refresh bt], w2)
                  | (None, token, w2) \<Rightarrow>
                      ((Some (Wrapper (bearerTransport st auth token realm reg service scopes
                                         scheme)), None),
                       [Ping reg t, Refresh bt], w2))
         in (parameters ''service'' = None \<longrightarrow>
               NewWithContext env reg auth t scopes w = negotiated (reg_String reg)) \<and>
            (\<forall>s. parameters ''service'' = Some s \<longrightarrow>
               NewWithContext env reg auth t scopes w = negotiated s)"
  using assms
  by (simp add: NewWithContext_def Let_def del: refresh.simps split: prod.splits option.splits)

theorem NewWithContext_bearer_service_witness:
  "NewWithContext (example_echo_env example_params_realm) example_reg_port () (External 0)
       [''repository:foo:pull''] 0
     = ((Some (Wrapper (bearerTransport
                  (schemeTransport ''https'' example_reg_port
                     (userAgentTransport (External 0) ''go-containerregistry''))
                  () (Some ''registry.example:5000'') ''https://auth.example/token''
                  example_reg_port ''registry.example:5000'' [''repository:foo:pull''] ''https'')),
         None),
        [Ping example_reg_port (External 0),
         Refresh (bearerTransport
                  (schemeTransport ''https'' example_reg_port
                     (userAgentTransport (External 0) ''go-containerregistry''))
                  () None ''https://auth.example/token''
                  example_reg_port ''registry.example:5000'' [''repository:foo:pull''] ''https'')],
        2)
   \<and> NewWithContext (example_echo_env example_params_service) example_reg_port () (External 0)
       [''repository:foo:pull''] 0
     = ((Some (Wrapper (bearerTransport
                  (schemeTransport ''https'' example_reg_port
                     (userAgentTransport (External 0) ''go-containerregistry''))
                  () (Some ''token-service'') ''https://auth.example/token''
                  example_reg_port ''token-service'' [''repository:foo:pull''] ''https'')),
         None),
        [Ping example_reg_port (External 0),
         Refresh (bearerTransport
                  (schemeTransport ''https'' example_reg_port
                     (userAgentTransport (External 0) ''go-containerregistry''))
                  () None ''https://auth.example/token''
                  example_reg_port ''token-service'' [''repository:foo:pull''] ''https'')],
        2)"
proof -
  have p: "ping (example_echo_env ps) example_reg_port (External 0) 0
             = (Inr (PingResp ''bearer'' ps ''https''), 1)" for ps
    by (simp add: example_echo_env_def example_env_def)
  have c: "Canonical (example_echo_env ps) ''bearer'' = bearer" for ps
    by (simp add: example_echo_env_def example_env_def)
  have u: "userAgent (example_echo_env ps) '''' = ''go-containerregistry''" for ps
    by (simp add: example_echo_env_def example_env_def)
  have x: "exchange (example_echo_env ps) a rl sv sc w = (Inr sv, Suc w)" for ps a rl sv sc w
    by (simp add: example_echo_env_def)
  have r1: "example_params_realm ''realm'' = Some ''https://auth.example/token''"
    by (simp add: example_params_realm_def)
  have s1: "example_params_realm ''service'' = None"
    by (simp add: example_params_realm_def)
  have r2: "example_params_service ''realm'' = Some ''https://auth.example/token''"
    by (simp add: example_params_service_def)
  have s2: "example_params_service ''service'' = Some ''token-service''"
    by (simp add: example_params_service_def)
  have g: "reg_String example_reg_port = ''registry.example:5000''"
    by (simp add: example_reg_port_def)
  show ?thesis
    using NewWithContext_bearer_service
            [OF p [of example_params_realm] c [of example_params_realm] r1,
             of "()" "[''repository:foo:pull'']"]
          NewWithContext_bearer_service
            [OF p [of example_params_service] c [of example_params_service] r2,
             of "()" "[''repository:foo:pull'']"]
    by (simp add: Let_def NewUserAgent_def u x s1 s2 g)
qed

section \<open>Negotiation: the transports returned\<close>

text \<open>
  Claim C4. Whenever the probe returns a challenge whose canonical kind is anonymous
  (no authentication needed), \<open>NewWithContext\<close> returns, with no error and after the
  probe alone, a \<open>Wrapper\<close> directly around the scheme selector, which is directly around
  the supplied round tripper (with its user-agent decorator): there is no basic and no
  bearer decorator. Serving a request through the result is serving, through the supplied
  round tripper, a request whose \<open>Authorization\<close> header is the one the caller gave it.
\<close>

theorem NewWithContext_anonymous:
  assumes "ping env reg t w = (Inr (PingResp chal parameters scheme), w1)"
    and "Canonical env chal = anonymous"
  shows "let t1 = (case t of userAgentTransport _ _ \<Rightarrow> t | _ \<Rightarrow> NewUserAgent env t '''')
         in NewWithContext env reg auth t scopes w =
              ((Some (Wrapper (schemeTransport scheme reg t1)), None), [Ping reg t], w1) \<and>
            (\<forall>req x. \<exists>req'.
               header req' ''Authorization'' = header req ''Authorization'' \<and>
               outcome (RoundTrip env (Wrapper (schemeTransport scheme reg t1)) req x) =
                 outcome (RoundTrip env t req' x))"
proof -
  define t1 where "t1 = (case t of userAgentTransport _ _ \<Rightarrow> t | _ \<Rightarrow> NewUserAgent env t '''')"
  have new: "NewWithContext env reg auth t scopes w =
               ((Some (Wrapper (schemeTransport scheme reg t1)), None), [Ping reg t], w1)"
    using assms by (simp add: NewWithContext_def t1_def)
  have sent: "\<exists>req'. header req' ''Authorization'' = header req ''Authorization'' \<and>
               outcome (RoundTrip env (Wrapper (schemeTransport scheme reg t1)) req x) =
                 outcome (RoundTrip env t req' x)" for req x
  proof (cases "\<exists>i ua. t = userAgentTransport i ua")
    case True
    then have "t1 = t" by (auto simp: t1_def)
    then have "outcome (RoundTrip env (Wrapper (schemeTransport scheme reg t1)) req x) =
                 outcome (RoundTrip env t (req\<lparr>url_scheme := scheme\<rparr>) x)"
      by (simp add: outcome_def Let_def del: RoundTrip.simps(2) split: prod.splits)
    moreover have "header (req\<lparr>url_scheme := scheme\<rparr>) ''Authorization'' = header req ''Authorization''"
      by simp
    ultimately show ?thesis by blast
  next
    case False
    then have "t1 = userAgentTransport t (userAgent env '''')"
      by (cases t) (auto simp: t1_def NewUserAgent_def)
    then have "outcome (RoundTrip env (Wrapper (schemeTransport scheme reg t1)) req x) =
                 outcome (RoundTrip env t
                   (set_header ''User-Agent'' (userAgent env '''') (req\<lparr>url_scheme := scheme\<rparr>)) x)"
      by (simp add: outcome_def Let_def split: prod.splits)
    moreover have "header (set_header ''User-Agent'' (userAgent env '''') (req\<lparr>url_scheme := scheme\<rparr>))
                     ''Authorization'' = header req ''Authorization''"
      by (simp add: set_header_def)
    ultimately show ?thesis by blast
  qed
  from new sent show ?thesis
    unfolding Let_def t1_def [symmetric] by blast
qed

theorem NewWithContext_anonymous_witness:
  "NewWithContext (example_env '''' Map.empty (Inr ''abc'')) example_reg () (External 0) [] 0
     = ((Some (Wrapper (schemeTransport ''https'' example_reg
                          (userAgentTransport (External 0) ''go-containerregistry''))), None),
        [Ping example_reg (External 0)], 1)
   \<and> (\<exists>req'. header req' ''Authorization'' = None \<and>
          outcome (RoundTrip (example_env '''' Map.empty (Inr ''abc''))
                     (Wrapper (schemeTransport ''https'' example_reg
                                 (userAgentTransport (External 0) ''go-containerregistry'')))
                     example_req 1)
          = outcome (RoundTrip (example_env '''' Map.empty (Inr ''abc'')) (External 0) req' 1))"
proof -
  let ?env = "example_env '''' Map.empty (Inr ''abc'')"
  have p: "ping ?env example_reg (External 0) 0 = (Inr (PingResp '''' Map.empty ''https''), 1)"
    by (simp add: example_env_def)
  have c: "Canonical ?env '''' = anonymous"
    by (simp add: example_env_def)
  have u: "userAgent ?env '''' = ''go-containerregistry''"
    by (simp add: example_env_def)
  have h: "header example_req ''Authorization'' = None"
    by (simp add: example_req_def)
  from NewWithContext_anonymous [OF p c, of "()" "[]"]
  have new: "NewWithContext ?env example_reg () (External 0) [] 0
     = ((Some (Wrapper (schemeTransport ''https'' example_reg
                          (userAgentTransport (External 0) ''go-containerregistry''))), None),
        [Ping example_reg (External 0)], 1)"
    and sent: "\<exists>req'. header req' ''Authorization'' = header example_req ''Authorization'' \<and>
          outcome (RoundTrip ?env
                     (Wrapper (schemeTransport ''https'' example_reg
                                 (userAgentTransport (External 0) ''go-containerregistry'')))
                     example_req 1)
          = outcome (RoundTrip ?env (External 0) req' 1)"
    by (simp_all add: Let_def NewUserAgent_def u del: RoundTrip.simps)
  from new sent h show ?thesis
    by simp
qed

text \<open>
  Claim C5. Every transport \<open>NewWithContext\<close> returns is a \<open>Wrapper\<close> around either the
  scheme selector, or a basic transport whose inner round tripper is the scheme selector,
  or a bearer transport whose inner round tripper is the scheme selector; and that scheme
  selector carries the scheme of the probe's answer. The scheme selector makes exactly one
  call, handing down the request with its scheme replaced by the probed one, and its
  outcome is the outcome of that call. The scheme the caller's request carries has no
  influence on the outcome: replacing it by any other changes nothing.
\<close>

theorem NewWithContext_scheme_selector:
  assumes "NewWithContext env reg auth t scopes w = ((Some tr, e), cs, w')"
  shows "\<exists>chal parameters scheme w1 t1.
           ping env reg t w = (Inr (PingResp chal parameters scheme), w1) \<and>
           (tr = Wrapper (schemeTransport scheme reg t1) \<or>
            (\<exists>target. tr = Wrapper (basicTransport (schemeTransport scheme reg t1) auth target)) \<or>
            (\<exists>token realm service.
               tr = Wrapper (bearerTransport (schemeTransport scheme reg t1) auth token realm reg
                               service scopes scheme))) \<and>
           (\<forall>req x. fst (snd (RoundTrip env (schemeTransport scheme reg t1) req x)) =
                       [Delegate (req\<lparr>url_scheme := scheme\<rparr>)] \<and>
                    outcome (RoundTrip env (schemeTransport scheme reg t1) req x) =
                      outcome (RoundTrip env t1 (req\<lparr>url_scheme := scheme\<rparr>) x)) \<and>
           (\<forall>req s x. outcome (RoundTrip env tr (req\<lparr>url_scheme := s\<rparr>) x) =
                       outcome (RoundTrip env tr req x))"
proof -
  from NewWithContext_success_shape [OF assms]
  obtain chal parameters scheme w1 t1 where
    p: "ping env reg t w = (Inr (PingResp chal parameters scheme), w1)" and
    shape: "tr = Wrapper (schemeTransport scheme reg t1) \<or>
            tr = Wrapper (basicTransport (schemeTransport scheme reg t1) auth (RegistryStr reg)) \<or>
            (\<exists>token realm service.
               tr = Wrapper (bearerTransport (schemeTransport scheme reg t1) auth token realm reg
                               service scopes scheme))"
    unfolding Let_def by blast
  have st: "fst (snd (RoundTrip env (schemeTransport scheme reg t1) req x)) =
              [Delegate (req\<lparr>url_scheme := scheme\<rparr>)] \<and>
            outcome (RoundTrip env (schemeTransport scheme reg t1) req x) =
              outcome (RoundTrip env t1 (req\<lparr>url_scheme := scheme\<rparr>) x)" for req x
    by (simp add: outcome_def Let_def split: prod.splits)
  have inv: "outcome (RoundTrip env tr (req\<lparr>url_scheme := s\<rparr>) x) = outcome (RoundTrip env tr req x)"
    for req s x
    using shape
    by (auto simp only: Wrapper_outcome scheme_ignores_url_scheme basic_ignores_url_scheme
                        bearer_ignores_url_scheme)
  from p shape st inv show ?thesis
    by blast
qed

theorem NewWithContext_scheme_selector_witness:
  "NewWithContext (example_env ''basic'' Map.empty (Inr ''abc'')) example_reg () (External 0) [] 0
     = ((Some (Wrapper (basicTransport
                          (schemeTransport ''https'' example_reg
                             (userAgentTransport (External 0) ''go-containerregistry''))
                          () ''registry.example'')), None),
        [Ping example_reg (External 0)], 1)
   \<and> (\<forall>s x. outcome (RoundTrip (example_env ''basic'' Map.empty (Inr ''abc''))
                        (Wrapper (basicTransport
                          (schemeTransport ''https'' example_reg
                             (userAgentTransport (External 0) ''go-containerregistry''))
                          () ''registry.example''))
                        (example_req\<lparr>url_scheme := s\<rparr>) x)
              = outcome (RoundTrip (example_env ''basic'' Map.empty (Inr ''abc''))
                        (Wrapper (basicTransport
                          (schemeTransport ''https'' example_reg
                             (userAgentTransport (External 0) ''go-containerregistry''))
                          () ''registry.example''))
                        example_req x))"
proof -
  let ?env = "example_env ''basic'' Map.empty (Inr ''abc'')"
  have new: "NewWithContext ?env example_reg () (External 0) [] 0
     = ((Some (Wrapper (basicTransport
                          (schemeTransport ''https'' example_reg
                             (userAgentTransport (External 0) ''go-containerregistry''))
                          () ''registry.example'')), None),
        [Ping example_reg (External 0)], 1)"
    by (simp add: NewWithContext_def example_env_def NewUserAgent_def example_reg_def)
  from NewWithContext_scheme_selector [OF new] new show ?thesis
    by blast
qed

text \<open>
  Claim C8. In every transport \<open>NewWithContext\<close> returns, the round tripper below the
  scheme selector is the supplied one itself when that is a user-agent decorator, and
  otherwise the supplied one inside one new user-agent decorator (the one
  \<^verbatim>\<open>NewUserAgent(t, "")\<close> builds).
\<close>

theorem NewWithContext_user_agent_once:
  assumes "NewWithContext env reg auth t scopes w = ((Some tr, e), cs, w')"
  shows "\<exists>scheme t1.
           (tr = Wrapper (schemeTransport scheme reg t1) \<or>
            tr = Wrapper (basicTransport (schemeTransport scheme reg t1) auth (RegistryStr reg)) \<or>
            (\<exists>token realm service.
               tr = Wrapper (bearerTransport (schemeTransport scheme reg t1) auth token realm reg
                               service scopes scheme))) \<and>
           ((\<exists>i ua. t = userAgentTransport i ua) \<longrightarrow> t1 = t) \<and>
           ((\<nexists>i ua. t = userAgentTransport i ua) \<longrightarrow> t1 = userAgentTransport t (userAgent env ''''))"
proof -
  define t1 where "t1 = (case t of userAgentTransport _ _ \<Rightarrow> t | _ \<Rightarrow> NewUserAgent env t '''')"
  from NewWithContext_success_shape [OF assms]
  obtain scheme where
    shape: "tr = Wrapper (schemeTransport scheme reg t1) \<or>
            tr = Wrapper (basicTransport (schemeTransport scheme reg t1) auth (RegistryStr reg)) \<or>
            (\<exists>token realm service.
               tr = Wrapper (bearerTransport (schemeTransport scheme reg t1) auth token realm reg
                               service scopes scheme))"
    unfolding Let_def t1_def by blast
  have already: "(\<exists>i ua. t = userAgentTransport i ua) \<longrightarrow> t1 = t"
    by (auto simp: t1_def)
  have added: "(\<nexists>i ua. t = userAgentTransport i ua) \<longrightarrow> t1 = userAgentTransport t (userAgent env '''')"
    by (cases t) (auto simp: t1_def NewUserAgent_def)
  from shape already added show ?thesis
    by blast
qed

theorem NewWithContext_user_agent_once_witness:
  "NewWithContext (example_env '''' Map.empty (Inr ''abc'')) example_reg ()
       (userAgentTransport (External 0) ''crane'') [] 0
     = ((Some (Wrapper (schemeTransport ''https'' example_reg
                          (userAgentTransport (External 0) ''crane''))), None),
        [Ping example_reg (userAgentTransport (External 0) ''crane'')], 1)
   \<and> NewWithContext (example_env '''' Map.empty (Inr ''abc'')) example_reg () (External 0) [] 0
     = ((Some (Wrapper (schemeTransport ''https'' example_reg
                          (userAgentTransport (External 0) ''go-containerregistry''))), None),
        [Ping example_reg (External 0)], 1)"
proof -
  let ?env = "example_env '''' Map.empty (Inr ''abc'')"
  have u: "userAgent ?env '''' = ''go-containerregistry''"
    by (simp add: example_env_def)
  have already: "NewWithContext ?env example_reg () (userAgentTransport (External 0) ''crane'') [] 0
     = ((Some (Wrapper (schemeTransport ''https'' example_reg
                          (userAgentTransport (External 0) ''crane''))), None),
        [Ping example_reg (userAgentTransport (External 0) ''crane'')], 1)"
    by (simp add: NewWithContext_def example_env_def)
  have added: "NewWithContext ?env example_reg () (External 0) [] 0
     = ((Some (Wrapper (schemeTransport ''https'' example_reg
                          (userAgentTransport (External 0) ''go-containerregistry''))), None),
        [Ping example_reg (External 0)], 1)"
    by (simp add: NewWithContext_def example_env_def NewUserAgent_def)
  from NewWithContext_user_agent_once [OF already] NewWithContext_user_agent_once [OF added]
    already added
  show ?thesis
    by blast
qed

section \<open>The transparent wrapper\<close>

text \<open>
  Claim C9. For every request, \<open>RoundTrip\<close> of a \<open>Wrapper\<close> returns exactly the result
  pair (response and error) of \<open>RoundTrip\<close> of its inner round tripper on the same
  request, and leaves the outside world as that call leaves it; its one call is that
  delegation. As functions of the request and the world, the two round trips are equal.
\<close>

theorem Wrapper_RoundTrip_delegates:
  "fst (RoundTrip env (Wrapper inner) req w) = fst (RoundTrip env inner req w) \<and>
   fst (snd (RoundTrip env (Wrapper inner) req w)) = [Delegate req] \<and>
   outcome (RoundTrip env (Wrapper inner) req w) = outcome (RoundTrip env inner req w) \<and>
   (\<lambda>req w. outcome (RoundTrip env (Wrapper inner) req w)) =
     (\<lambda>req w. outcome (RoundTrip env inner req w))"
proof -
  have same: "outcome (RoundTrip env (Wrapper inner) req w) = outcome (RoundTrip env inner req w)"
    for req w
    by (simp add: outcome_def split: prod.splits)
  have calls: "fst (snd (RoundTrip env (Wrapper inner) req w)) = [Delegate req]"
    by (simp split: prod.splits)
  from same calls show ?thesis
    by (simp add: outcome_def)
qed

section \<open>The bearer transport on a 401\<close>

text \<open>
  Claim C3, as amended. For every bearer transport and every request whose first inner
  response is a 401 (the request sent with the cached token comes back with status 401
  and no error), the transport calls \<open>refresh\<close> exactly once. If that exchange succeeds,
  it retries the original request exactly once, with the new token attached, and returns
  whatever the retry yields, a second 401 included: the calls are the first attempt, the
  refresh and the retry, and no more. If the exchange fails, the exchange error is
  returned and the request is not retried.
\<close>

theorem bearerTransport_RoundTrip_unauthorized:
  assumes "RoundTrip env inner (set_header ''Authorization'' (bearer_header token) req) w =
             ((Some resp, None), cs1, inner1, w1)"
    and "status resp = 401"
  shows "let req1 = set_header ''Authorization'' (bearer_header token) req;
             bt1 = bearerTransport inner1 basic' token realm registry service scopes scheme
         in case refresh env bt1 w1 of
              (Some err, token2, w2) \<Rightarrow>
                RoundTrip env (bearerTransport inner basic' token realm registry service scopes scheme) req w =
                  ((None, Some err), [Delegate req1, Refresh bt1],
                   bearerTransport inner1 basic' token2 realm registry service scopes scheme, w2)
            | (None, token2, w2) \<Rightarrow>
                (let req2 = set_header ''Authorization'' (bearer_header token2) req
                 in case RoundTrip env inner1 req2 w2 of
                      (r2, cs2, inner2, w3) \<Rightarrow>
                        RoundTrip env (bearerTransport inner basic' token realm registry service scopes scheme) req w =
                          (r2, [Delegate req1, Refresh bt1, Delegate req2],
                           bearerTransport inner2 basic' token2 realm registry service scopes scheme, w3))"
  using assms
  by (simp add: Let_def unauthorized_def del: refresh.simps split: prod.splits option.splits)

theorem bearerTransport_RoundTrip_unauthorized_witness:
  "RoundTrip (example_env ''bearer'' example_params (Inr ''stale'')) (example_bearer (Some ''old''))
       example_req 0
     = ((Some \<lparr>status = 401, resp_body = ''''\<rparr>, None),
        [Delegate (set_header ''Authorization'' ''Bearer old'' example_req),
         Refresh (example_bearer (Some ''old'')),
         Delegate (set_header ''Authorization'' ''Bearer stale'' example_req)],
        example_bearer (Some ''stale''), 3)
   \<and> RoundTrip (example_env ''bearer'' example_params (Inr ''abc'')) (example_bearer (Some ''old''))
       example_req 0
     = ((Some \<lparr>status = 200, resp_body = ''''\<rparr>, None),
        [Delegate (set_header ''Authorization'' ''Bearer old'' example_req),
         Refresh (example_bearer (Some ''old'')),
         Delegate (set_header ''Authorization'' ''Bearer abc'' example_req)],
        example_bearer (Some ''abc''), 3)"
proof -
  have first: "RoundTrip (example_env ''bearer'' example_params ex) (External 0)
                 (set_header ''Authorization'' (bearer_header (Some ''old'')) example_req) 0 =
               ((Some \<lparr>status = 401, resp_body = ''''\<rparr>, None), [], External 0, 1)" for ex
    by (simp add: example_env_def set_header_def bearer_header_def)
  have st: "status \<lparr>status = 401, resp_body = ''''\<rparr> = 401"
    by simp
  have x: "exchange (example_env ''bearer'' example_params ex) a rl sv sc w = (ex, Suc w)" for ex a rl sv sc w
    by (simp add: example_env_def)
  have e: "external (example_env ''bearer'' example_params ex) k req w =
       ((Some \<lparr>status = (if header req ''Authorization'' = Some ''Bearer abc'' then 200 else 401),
                 resp_body = ''''\<rparr>, None), Suc w)" for ex k req w
    by (simp add: example_env_def)
  show ?thesis
    using bearerTransport_RoundTrip_unauthorized [OF first [of "Inr ''stale''"] st,
            where basic' = "()" and realm = "''https://auth.example/token''"
              and registry = example_reg and service = "''registry.example''"
              and scopes = "[''repository:foo:pull'']" and scheme = "''https''"]
          bearerTransport_RoundTrip_unauthorized [OF first [of "Inr ''abc''"] st,
            where basic' = "()" and realm = "''https://auth.example/token''"
              and registry = example_reg and service = "''registry.example''"
              and scopes = "[''repository:foo:pull'']" and scheme = "''https''"]
    by (simp add: example_bearer_def Let_def x e bearer_header_def set_header_def
             del: RoundTrip.simps(5))
qed

text \<open>
  Claim C3 as stated promises one retry after every first 401. Here the first inner
  response is a 401 and the token exchange is denied: the bearer transport returns the
  exchange error after the first attempt and the refresh, with no retry.
\<close>

theorem bearerTransport_RoundTrip_no_retry_counterexample:
  "unauthorized (fst (RoundTrip (example_env ''bearer'' example_params (Inl (Foreign ''denied'')))
                        (External 0)
                        (set_header ''Authorization'' ''Bearer old'' example_req) 0))
   \<and> RoundTrip (example_env ''bearer'' example_params (Inl (Foreign ''denied'')))
        (example_bearer (Some ''old'')) example_req 0
     = ((None, Some (Foreign ''denied'')),
        [Delegate (set_header ''Authorization'' ''Bearer old'' example_req),
         Refresh (example_bearer (Some ''old''))],
        example_bearer (Some ''old''), 2)"
  by (simp add: example_env_def example_bearer_def unauthorized_def bearer_header_def
                set_header_def example_req_def Let_def)

end
